theory Spec2Isabelle
  imports Main
begin

section \<open>Data model\<close>

text \<open>
  The string-literal unions and the enum of the type declarations: \<open>ImageSize\<close> is
  \<open>'1K' | '2K' | '4K'\<close>, \<open>AspectRatio\<close> is \<open>'1:1' | '3:4' | '4:3' | '9:16' | '16:9'\<close>,
  the asset type is \<open>'image' | 'video'\<close>.
\<close>

datatype ImageSize = Size1K | Size2K | Size4K

datatype AspectRatio = AR_1_1 | AR_3_4 | AR_4_3 | AR_9_16 | AR_16_9

datatype ToolType = GENERATE | EDIT | ANIMATE | HISTORY

datatype AssetType = ImageAsset | VideoAsset

text \<open>
  \<open>GeneratedAsset\<close>; the fields \<open>id\<close>, \<open>type\<close> and \<open>prompt\<close> of the interface are
  \<open>asset_id\<close>, \<open>asset_type\<close> and \<open>asset_prompt\<close> here.
\<close>

record GeneratedAsset =
  asset_id :: string
  asset_type :: AssetType
  url :: string
  asset_prompt :: string
  timestamp :: nat

text \<open>A thrown JavaScript \<open>Error\<close> object, with its \<open>message\<close>.\<close>

datatype JsError = Error (message: string)

subsection \<open>Payloads of the generative-AI client\<close>

text \<open>
  The shapes the wrapper builds and reads. A field the wrapper reaches through \<open>?.\<close>, or
  fills with a value that may be \<open>undefined\<close>, is an \<open>option\<close>. The \<open>text\<close> of a part
  is \<open>part_text\<close>, the \<open>done\<close> flag of an operation is \<open>op_done\<close>.
\<close>

record InlineData =
  data :: "string option"
  mimeType :: string

record Part =
  part_text :: "string option"
  inlineData :: "InlineData option"

record Content =
  parts :: "Part list option"

record Candidate =
  content :: "Content option"

record GenerateContentResponse =
  candidates :: "Candidate list option"

record ImageConfig =
  aspectRatio :: AspectRatio
  imageSize :: "ImageSize option"

record GenerateContentConfig =
  imageConfig :: "ImageConfig option"

record GenerateContentParameters =
  model :: string
  contents :: Content
  config :: "GenerateContentConfig option"

record VideoImage =
  imageBytes :: "string option"
  image_mimeType :: string

record GenerateVideosConfig =
  numberOfVideos :: nat
  resolution :: string
  video_aspectRatio :: AspectRatio

record GenerateVideosParameters =
  video_model :: string
  video_prompt :: string
  video_image :: VideoImage
  video_config :: GenerateVideosConfig

record Video =
  uri :: "string option"

record GeneratedVideo =
  video :: "Video option"

record GenerateVideosResponse =
  generatedVideos :: "GeneratedVideo list option"

record VideosOperation =
  op_done :: bool
  response :: "GenerateVideosResponse option"

text \<open>The HTTP response of \<open>fetch\<close>: reading its body as a blob may fail.\<close>

record FetchResponse =
  blob :: "JsError + string"

subsection \<open>The outside world\<close>

text \<open>
  Everything the code awaits from outside is a field of the world: the client's three
  calls (the \<open>n\<close>-th poll of an operation may answer differently from the one before),
  \<open>fetch\<close>, \<open>URL.createObjectURL\<close>, the key dialog of \<open>window.aistudio\<close>, the random
  asset id and the clock. A call that rejects returns \<open>Inl\<close>. \<open>getAI\<close> only builds the client
  object from \<open>process.env.API_KEY\<close>, so it is no call of its own here.
\<close>

record World =
  API_KEY :: "string option"
  generateContent :: "GenerateContentParameters \<Rightarrow> JsError + GenerateContentResponse"
  generateVideos :: "GenerateVideosParameters \<Rightarrow> JsError + VideosOperation"
  getVideosOperation :: "nat \<Rightarrow> VideosOperation \<Rightarrow> JsError + VideosOperation"
  fetch :: "string \<Rightarrow> JsError + FetchResponse"
  createObjectURL :: "string \<Rightarrow> string"
  hasSelectedApiKey :: "JsError + bool"
  openSelectKey :: "nat \<Rightarrow> JsError + unit"
  random_id :: string
  now :: nat

text \<open>The calls a run makes, in order.\<close>

datatype Event =
    GenerateContent GenerateContentParameters
  | GenerateVideos GenerateVideosParameters
  | SetTimeout nat
  | GetVideosOperation VideosOperation
  | ReadUri VideosOperation
  | Fetch string
  | ReadBlob
  | CreateObjectURL string
  | HasSelectedApiKey
  | OpenSelectKey

section \<open>JavaScript string helpers\<close>

text \<open>\<open>s.split(',')\<close>: the pieces between the separators, at least one piece.\<close>

fun split :: "char \<Rightarrow> string \<Rightarrow> string list" where
  "split c [] = ['''']"
| "split c (x # xs) =
     (if x = c then [] # split c xs
      else (case split c xs of [] \<Rightarrow> [x # ''''] | y # ys \<Rightarrow> (x # y) # ys))"

text \<open>\<open>xs[i]\<close> on an array: \<open>undefined\<close> out of range.\<close>

definition at_index :: "'a list \<Rightarrow> nat \<Rightarrow> 'a option" where
  "at_index xs i = (if i < length xs then Some (xs ! i) else None)"

text \<open>A value inside a template literal: \<open>undefined\<close> prints as the word.\<close>

definition template :: "string option \<Rightarrow> string" where
  "template v = (case v of None \<Rightarrow> ''undefined'' | Some s \<Rightarrow> s)"

text \<open>\<open>a || b\<close> on strings: the empty string is falsy.\<close>

definition or_else :: "string \<Rightarrow> string \<Rightarrow> string" where
  "or_else a b = (if a = [] then b else a)"

text \<open>The string held by a \<open>string | null\<close> that a guard has found set.\<close>

definition value_of :: "string option \<Rightarrow> string" where
  "value_of v = (case v of None \<Rightarrow> [] | Some s \<Rightarrow> s)"

text \<open>\<open>!v\<close> on \<open>string | null | undefined\<close>.\<close>

definition falsy :: "string option \<Rightarrow> bool" where
  "falsy v = (case v of None \<Rightarrow> True | Some s \<Rightarrow> s = [])"

fun starts_with :: "string \<Rightarrow> string \<Rightarrow> bool" where
  "starts_with hay [] = True"
| "starts_with [] (n # ns) = False"
| "starts_with (h # hs) (n # ns) = (h = n \<and> starts_with hs ns)"

text \<open>\<open>hay.includes(needle)\<close>.\<close>

fun js_includes :: "string \<Rightarrow> string \<Rightarrow> bool" where
  "js_includes [] needle = (needle = [])"
| "js_includes (h # hs) needle = (starts_with (h # hs) needle \<or> js_includes hs needle)"

section \<open>GeminiService\<close>

text \<open>\<open>response.candidates?.[0]?.content?.parts || []\<close>.\<close>

definition response_parts :: "GenerateContentResponse \<Rightarrow> Part list" where
  "response_parts r =
     (case candidates r of
        None \<Rightarrow> []
      | Some cs \<Rightarrow>
          (case at_index cs 0 of
             None \<Rightarrow> []
           | Some c \<Rightarrow>
               (case content c of
                  None \<Rightarrow> []
                | Some ct \<Rightarrow> (case parts ct of None \<Rightarrow> [] | Some ps \<Rightarrow> ps))))"

text \<open>
  The \<open>for\<close> loop over the parts that both image calls end with: return at the first
  part whose \<open>inlineData\<close> is set, throw the given message when the loop runs out.
\<close>

fun first_inline :: "string \<Rightarrow> Part list \<Rightarrow> JsError + string" where
  "first_inline msg [] = Inl (Error msg)"
| "first_inline msg (p # ps) =
     (case inlineData p of
        Some d \<Rightarrow> Inr (''data:image/png;base64,'' @ template (data d))
      | None \<Rightarrow> first_inline msg ps)"

text \<open>\<open>request.config?.imageConfig\<close>.\<close>

definition request_imageConfig :: "GenerateContentParameters \<Rightarrow> ImageConfig option" where
  "request_imageConfig req = (case config req of None \<Rightarrow> None | Some c \<Rightarrow> imageConfig c)"

text \<open>The object literal \<open>generateImage\<close> passes to \<open>generateContent\<close>.\<close>

definition generateImage_request :: "string \<Rightarrow> ImageSize \<Rightarrow> AspectRatio \<Rightarrow> GenerateContentParameters" where
  "generateImage_request p s a =
     (let isHighRes = (s = Size2K \<or> s = Size4K);
          m = (if isHighRes then ''gemini-3-pro-image-preview'' else ''gemini-2.5-flash-image'')
      in \<lparr>model = m,
          contents = \<lparr>parts = Some [\<lparr>part_text = Some p, inlineData = None\<rparr>]\<rparr>,
          config = Some \<lparr>imageConfig = Some
            \<lparr>aspectRatio = a,
             imageSize = (if isHighRes then Some s else None)\<rparr>\<rparr>\<rparr>)"

definition generateImage ::
  "World \<Rightarrow> string \<Rightarrow> ImageSize \<Rightarrow> AspectRatio \<Rightarrow> (JsError + string) \<times> Event list" where
  "generateImage w p s a =
     (let req = generateImage_request p s a
      in (case generateContent w req of
            Inl e \<Rightarrow> Inl e
          | Inr r \<Rightarrow> first_inline ''No image data returned from model'' (response_parts r),
          [GenerateContent req]))"

text \<open>The object literal \<open>editImage\<close> passes to \<open>generateContent\<close>.\<close>

definition editImage_request :: "string \<Rightarrow> string \<Rightarrow> string \<Rightarrow> GenerateContentParameters" where
  "editImage_request baseImageBase64 colorImageBase64 p =
     \<lparr>model = ''gemini-2.5-flash-image'',
      contents = \<lparr>parts = Some
        [\<lparr>part_text = None,
          inlineData = Some \<lparr>data = at_index (split CHR '','' baseImageBase64) 1,
                             mimeType = ''image/png''\<rparr>\<rparr>,
         \<lparr>part_text = None,
          inlineData = Some \<lparr>data = at_index (split CHR '','' colorImageBase64) 1,
                             mimeType = ''image/png''\<rparr>\<rparr>,
         \<lparr>part_text = Some (''Combine these two images. Use the first image as the subject and the second image's color palette, style, and lighting. Details: '' @ p),
          inlineData = None\<rparr>]\<rparr>,
      config = None\<rparr>"

definition editImage ::
  "World \<Rightarrow> string \<Rightarrow> string \<Rightarrow> string \<Rightarrow> (JsError + string) \<times> Event list" where
  "editImage w baseImageBase64 colorImageBase64 p =
     (let req = editImage_request baseImageBase64 colorImageBase64 p
      in (case generateContent w req of
            Inl e \<Rightarrow> Inl e
          | Inr r \<Rightarrow> first_inline ''No edited image data returned'' (response_parts r),
          [GenerateContent req]))"

text \<open>\<open>operation.response?.generatedVideos?.[0]?.video?.uri\<close>.\<close>

definition downloadLink :: "VideosOperation \<Rightarrow> string option" where
  "downloadLink operation =
     (case response operation of
        None \<Rightarrow> None
      | Some r \<Rightarrow>
          (case generatedVideos r of
             None \<Rightarrow> None
           | Some vs \<Rightarrow>
               (case at_index vs 0 of
                  None \<Rightarrow> None
                | Some g \<Rightarrow> (case video g of None \<Rightarrow> None | Some v \<Rightarrow> uri v))))"

text \<open>
  The \<open>while (!operation.done)\<close> loop: wait ten seconds, ask again, with the number of
  polls so far and the calls made so far. A poll that rejects ends the run with its
  error. The loop need not end, so the result is an \<open>option\<close>: \<open>None\<close> is a run that
  polls for ever.
\<close>

partial_function (option) poll ::
  "World \<Rightarrow> nat \<Rightarrow> VideosOperation \<Rightarrow> Event list \<Rightarrow> ((JsError + VideosOperation) \<times> Event list) option" where
  "poll w n operation tr =
     (if \<not> op_done operation then
        (case getVideosOperation w n operation of
           Inl e \<Rightarrow> Some (Inl e, tr @ [SetTimeout 10000, GetVideosOperation operation])
         | Inr operation' \<Rightarrow>
             poll w (Suc n) operation' (tr @ [SetTimeout 10000, GetVideosOperation operation]))
      else Some (Inr operation, tr))"

text \<open>What follows the loop: read the link, throw without one, else download.\<close>

definition download :: "World \<Rightarrow> VideosOperation \<Rightarrow> (JsError + string) \<times> Event list" where
  "download w operation =
     (let link = downloadLink operation in
      if falsy link then (Inl (Error ''Video generation failed''), [ReadUri operation])
      else
        (let u = template link @ ''&key='' @ template (API_KEY w) in
         case fetch w u of
           Inl e \<Rightarrow> (Inl e, [ReadUri operation, Fetch u])
         | Inr videoResponse \<Rightarrow>
             (case blob videoResponse of
                Inl e \<Rightarrow> (Inl e, [ReadUri operation, Fetch u, ReadBlob])
              | Inr b \<Rightarrow>
                  (Inr (createObjectURL w b),
                   [ReadUri operation, Fetch u, ReadBlob, CreateObjectURL b]))))"

definition animateImage_request :: "string \<Rightarrow> string \<Rightarrow> AspectRatio \<Rightarrow> GenerateVideosParameters" where
  "animateImage_request imageBase64 p a =
     (let validAspectRatio = (if a = AR_9_16 then AR_9_16 else AR_16_9)
      in \<lparr>video_model = ''veo-3.1-fast-generate-preview'',
          video_prompt = or_else p ''Cinematic animation of this scene'',
          video_image = \<lparr>imageBytes = at_index (split CHR '','' imageBase64) 1,
                         image_mimeType = ''image/png''\<rparr>,
          video_config = \<lparr>numberOfVideos = 1, resolution = ''1080p'',
                          video_aspectRatio = validAspectRatio\<rparr>\<rparr>)"

definition animateImage ::
  "World \<Rightarrow> string \<Rightarrow> string \<Rightarrow> AspectRatio \<Rightarrow> ((JsError + string) \<times> Event list) option" where
  "animateImage w imageBase64 p a =
     (let req = animateImage_request imageBase64 p a in
      case generateVideos w req of
        Inl e \<Rightarrow> Some (Inl e, [GenerateVideos req])
      | Inr operation \<Rightarrow>
          (case poll w 0 operation [GenerateVideos req] of
             None \<Rightarrow> None
           | Some (Inl e, tr) \<Rightarrow> Some (Inl e, tr)
           | Some (Inr operation', tr) \<Rightarrow>
               (case download w operation' of (r, tr') \<Rightarrow> Some (r, tr @ tr'))))"

section \<open>The App component\<close>

text \<open>
  The component's state, one field for each \<open>useState\<close>. The state variables \<open>size\<close>,
  \<open>aspectRatio\<close> and \<open>animateImage\<close> are \<open>st_size\<close>, \<open>st_aspectRatio\<close> and
  \<open>st_animateImage\<close> here; \<open>null\<close> is \<open>None\<close>.
\<close>

record AppState =
  activeTool :: ToolType
  loading :: bool
  loadingMessage :: string
  error :: "string option"
  assets :: "GeneratedAsset list"
  prompt :: string
  st_size :: ImageSize
  st_aspectRatio :: AspectRatio
  baseImage :: "string option"
  colorImage :: "string option"
  st_animateImage :: "string option"

text \<open>How often the key dialog has been opened in the calls made so far.\<close>

fun opened :: "Event list \<Rightarrow> nat" where
  "opened [] = 0"
| "opened (OpenSelectKey # tr) = Suc (opened tr)"
| "opened (e # tr) = opened tr"

text \<open>\<open>checkApiKey\<close> catches whatever its two calls throw, so it always returns.\<close>

definition checkApiKey :: "World \<Rightarrow> bool \<times> Event list" where
  "checkApiKey w =
     (case hasSelectedApiKey w of
        Inl e \<Rightarrow> (False, [HasSelectedApiKey])
      | Inr hasKey \<Rightarrow>
          (if \<not> hasKey then
             (case openSelectKey w 0 of
                Inl e \<Rightarrow> (False, [HasSelectedApiKey, OpenSelectKey])
              | Inr u \<Rightarrow> (True, [HasSelectedApiKey, OpenSelectKey]))
           else (True, [HasSelectedApiKey])))"

definition addAsset :: "World \<Rightarrow> string \<Rightarrow> AssetType \<Rightarrow> string \<Rightarrow> AppState \<Rightarrow> AppState" where
  "addAsset w u t assetPrompt st =
     (let newAsset = \<lparr>asset_id = random_id w, asset_type = t, url = u,
                      asset_prompt = assetPrompt, timestamp = now w\<rparr>
      in st\<lparr>assets := newAsset # assets st, activeTool := HISTORY\<rparr>)"

text \<open>
  The \<open>catch\<close> and \<open>finally\<close> blocks the three handlers share but for the fallback
  message. The first component of the result is the error the handler itself ends with,
  when the key dialog opened from the \<open>catch\<close> block rejects.
\<close>

definition on_failure ::
  "World \<Rightarrow> string \<Rightarrow> JsError \<Rightarrow> AppState \<Rightarrow> Event list \<Rightarrow> JsError option \<times> AppState \<times> Event list" where
  "on_failure w fallback err st tr =
     (let st' = st\<lparr>error := Some (or_else (message err) fallback)\<rparr> in
      if js_includes (message err) ''Requested entity was not found'' then
        (case openSelectKey w (opened tr) of
           Inl e \<Rightarrow> (Some e, st'\<lparr>loading := False\<rparr>, tr @ [OpenSelectKey])
         | Inr u \<Rightarrow> (None, st'\<lparr>loading := False\<rparr>, tr @ [OpenSelectKey]))
      else (None, st'\<lparr>loading := False\<rparr>, tr))"

definition runGeneration :: "World \<Rightarrow> AppState \<Rightarrow> JsError option \<times> AppState \<times> Event list" where
  "runGeneration w st =
     (if prompt st = [] then (None, st\<lparr>error := Some ''Please enter a prompt''\<rparr>, [])
      else
        (let st1 = st\<lparr>loading := True,
                      loadingMessage := ''Synthesizing your imagination...'',
                      error := None\<rparr>;
             tr1 = snd (checkApiKey w)
         in case generateImage w (prompt st) (st_size st) (st_aspectRatio st) of
              (Inr u, tr2) \<Rightarrow>
                (None, (addAsset w u ImageAsset (prompt st) st1)\<lparr>loading := False\<rparr>, tr1 @ tr2)
            | (Inl err, tr2) \<Rightarrow> on_failure w ''Generation failed'' err st1 (tr1 @ tr2)))"

definition runEditing :: "World \<Rightarrow> AppState \<Rightarrow> JsError option \<times> AppState \<times> Event list" where
  "runEditing w st =
     (if falsy (baseImage st) \<or> falsy (colorImage st)
      then (None, st\<lparr>error := Some ''Please upload both images''\<rparr>, [])
      else
        (let st1 = st\<lparr>loading := True,
                      loadingMessage := ''Blending visuals and styles...'',
                      error := None\<rparr>;
             tr1 = snd (checkApiKey w)
         in case editImage w (value_of (baseImage st)) (value_of (colorImage st)) (prompt st) of
              (Inr u, tr2) \<Rightarrow>
                (None,
                 (addAsset w u ImageAsset (or_else (prompt st) ''Styled Blend'') st1)
                   \<lparr>loading := False\<rparr>,
                 tr1 @ tr2)
            | (Inl err, tr2) \<Rightarrow> on_failure w ''Editing failed'' err st1 (tr1 @ tr2)))"

text \<open>\<open>runAnimation\<close> returns when \<open>animateImage\<close> does: \<open>None\<close> is a run that polls for ever.\<close>

definition runAnimation ::
  "World \<Rightarrow> AppState \<Rightarrow> (JsError option \<times> AppState \<times> Event list) option" where
  "runAnimation w st =
     (if falsy (st_animateImage st)
      then Some (None, st\<lparr>error := Some ''Please upload an image to animate''\<rparr>, [])
      else
        (let st1 = st\<lparr>loading := True,
                      loadingMessage :=
                        ''Breathing life into your pixels (this may take a minute)...'',
                      error := None\<rparr>;
             tr1 = snd (checkApiKey w)
         in case animateImage w (value_of (st_animateImage st)) (prompt st) (st_aspectRatio st) of
              None \<Rightarrow> None
            | Some (Inr u, tr2) \<Rightarrow>
                Some (None,
                      (addAsset w u VideoAsset (or_else (prompt st) ''Cinematic Motion'') st1)
                        \<lparr>loading := False\<rparr>,
                      tr1 @ tr2)
            | Some (Inl err, tr2) \<Rightarrow> Some (on_failure w ''Animation failed'' err st1 (tr1 @ tr2))))"

text \<open>The state of the component when it is first rendered: the arguments of its \<open>useState\<close> calls.\<close>

definition initial_state :: AppState where
  "initial_state =
     \<lparr>activeTool = GENERATE, loading = False, loadingMessage = [], error = None, assets = [],
      prompt = [], st_size = Size1K, st_aspectRatio = AR_1_1,
      baseImage = None, colorImage = None, st_animateImage = None\<rparr>"

section \<open>Worlds for the evaluated runs\<close>

text \<open>A world where a key is selected and every request is rejected.\<close>

definition offline :: World where
  "offline =
     \<lparr>API_KEY = Some ''KEY'',
      generateContent = (\<lambda>req. Inl (Error ''offline'')),
      generateVideos = (\<lambda>req. Inl (Error ''offline'')),
      getVideosOperation = (\<lambda>n operation. Inl (Error ''offline'')),
      fetch = (\<lambda>u. Inl (Error ''offline'')),
      createObjectURL = (\<lambda>b. ''blob:'' @ b),
      hasSelectedApiKey = Inr True,
      openSelectKey = (\<lambda>n. Inr ()),
      random_id = ''k3x9f'',
      now = 1700000000000\<rparr>"

text \<open>A world whose image model answers every request with the given response.\<close>

definition answering :: "GenerateContentResponse \<Rightarrow> World" where
  "answering r = offline\<lparr>generateContent := (\<lambda>req. Inr r)\<rparr>"

text \<open>A world whose image model rejects every request with the given message.\<close>

definition rejecting :: "string \<Rightarrow> World" where
  "rejecting msg = offline\<lparr>generateContent := (\<lambda>req. Inl (Error msg))\<rparr>"

definition text_part :: "string \<Rightarrow> Part" where
  "text_part t = \<lparr>part_text = Some t, inlineData = None\<rparr>"

definition image_part :: "string \<Rightarrow> Part" where
  "image_part d = \<lparr>part_text = None, inlineData = Some \<lparr>data = Some d, mimeType = ''image/png''\<rparr>\<rparr>"

definition candidate_of :: "Part list \<Rightarrow> Candidate" where
  "candidate_of ps = \<lparr>content = Some \<lparr>parts = Some ps\<rparr>\<rparr>"

definition pending_operation :: VideosOperation where
  "pending_operation = \<lparr>op_done = False, response = None\<rparr>"

definition finished_operation :: VideosOperation where
  "finished_operation =
     \<lparr>op_done = True,
      response = Some \<lparr>generatedVideos = Some
        [\<lparr>video = Some \<lparr>uri = Some ''https://videos.test/v1?alt=media''\<rparr>\<rparr>]\<rparr>\<rparr>"

definition failed_operation :: VideosOperation where
  "failed_operation = \<lparr>op_done = True, response = None\<rparr>"

text \<open>
  A world whose video operation is pending when created and after the first poll, and
  has ended with the given operation at the second poll; the download succeeds.
\<close>

definition polling :: "VideosOperation \<Rightarrow> World" where
  "polling final =
     offline\<lparr>generateVideos := (\<lambda>req. Inr pending_operation),
             getVideosOperation :=
               (\<lambda>n operation. Inr (if n < 1 then pending_operation else final)),
             fetch := (\<lambda>u. Inr \<lparr>blob = Inr ''VIDEO''\<rparr>)\<rparr>"

text \<open>The operations such a run holds: the one created, then the answer of each poll.\<close>

definition polled :: "VideosOperation \<Rightarrow> nat \<Rightarrow> VideosOperation" where
  "polled final i = (if i < 2 then pending_operation else final)"

section \<open>Properties\<close>

subsection \<open>Auxiliary facts\<close>

text \<open>
  A data URL is a header, a comma and a payload; neither the header nor a base64 payload
  holds a comma, so the second piece of the split is the payload.
\<close>

lemma split_plain: "c \<notin> set d \<Longrightarrow> split c d = [d]"
  by (induction d) auto

lemma split_header: "c \<notin> set h \<Longrightarrow> split c (h @ c # d) = h # split c d"
  by (induction h) auto

lemma data_url_payload:
  "CHR '','' \<notin> set h \<Longrightarrow> CHR '','' \<notin> set d \<Longrightarrow> at_index (split CHR '','' (h @ '','' @ d)) 1 = Some d"
  by (simp add: split_header split_plain at_index_def)

text \<open>
  Each image call makes exactly one request.
\<close>

lemma generateImage_trace: "snd (generateImage w p s a) = [GenerateContent (generateImage_request p s a)]"
  by (simp add: generateImage_def Let_def)

lemma editImage_trace: "snd (editImage w b c p) = [GenerateContent (editImage_request b c p)]"
  by (simp add: editImage_def Let_def)

text \<open>
  The loop over the parts returns at the first part with inline data and throws when
  there is none.
\<close>

lemma first_inline_find:
  "find (\<lambda>pt. inlineData pt \<noteq> None) ps = Some pt \<Longrightarrow> inlineData pt = Some d \<Longrightarrow>
   first_inline msg ps = Inr (''data:image/png;base64,'' @ template (data d))"
  by (induction ps) (auto split: option.splits if_splits)

lemma first_inline_none:
  "(\<forall>pt\<in>set ps. inlineData pt = None) \<Longrightarrow> first_inline msg ps = Inl (Error msg)"
  by (induction ps) auto

lemma first_inline_isl:
  "isl (first_inline msg ps) \<longleftrightarrow> (\<forall>pt\<in>set ps. inlineData pt = None)"
  by (induction ps) (auto split: option.splits)

text \<open>
  The poll loop. When the operation is first done after \<open>k\<close> polls, the loop returns it
  after exactly these \<open>k\<close> polls.
\<close>

lemma poll_exact:
  "(\<forall>i<k. \<not> op_done (ops (n + i)) \<and> getVideosOperation w (n + i) (ops (n + i)) = Inr (ops (Suc (n + i))))
   \<Longrightarrow> op_done (ops (n + k))
   \<Longrightarrow> poll w n (ops n) tr =
       Some (Inr (ops (n + k)),
             tr @ concat (map (\<lambda>i. [SetTimeout 10000, GetVideosOperation (ops i)]) [n..<n + k]))"
proof (induction k arbitrary: n tr)
  case 0
  then show ?case by (subst poll.simps) simp
next
  case (Suc k)
  from Suc.prems(1) have here: "\<not> op_done (ops n)" "getVideosOperation w n (ops n) = Inr (ops (Suc n))"
    by (metis add.right_neutral zero_less_Suc)+
  have rest: "\<forall>i<k. \<not> op_done (ops (Suc n + i)) \<and>
      getVideosOperation w (Suc n + i) (ops (Suc n + i)) = Inr (ops (Suc (Suc n + i)))"
    using Suc.prems(1) by (metis Suc_less_eq add_Suc_shift)
  have fin: "op_done (ops (Suc n + k))" using Suc.prems(2) by simp
  have "poll w n (ops n) tr = poll w (Suc n) (ops (Suc n)) (tr @ [SetTimeout 10000, GetVideosOperation (ops n)])"
    by (subst poll.simps) (simp add: here)
  also have "\<dots> = Some (Inr (ops (Suc n + k)),
      (tr @ [SetTimeout 10000, GetVideosOperation (ops n)]) @
        concat (map (\<lambda>i. [SetTimeout 10000, GetVideosOperation (ops i)]) [Suc n..<Suc n + k]))"
    by (rule Suc.IH [OF rest fin])
  finally have step: "poll w n (ops n) tr = Some (Inr (ops (Suc n + k)),
      (tr @ [SetTimeout 10000, GetVideosOperation (ops n)]) @
        concat (map (\<lambda>i. [SetTimeout 10000, GetVideosOperation (ops i)]) [Suc n..<Suc n + k]))" .
  have upt: "[n..<n + Suc k] = n # [Suc n..<Suc n + k]"
    by (subst upt_rec) simp
  show ?case unfolding upt using step by simp
qed

text \<open>
  Whenever the loop returns, it has polled only operations that were not done, each after
  a wait of 10000 ms, and an operation it returns is done.
\<close>

lemma poll_shape:
  assumes "poll w n operation tr = Some y"
  shows "\<exists>ops. snd y = tr @ concat (map (\<lambda>operation. [SetTimeout 10000, GetVideosOperation operation]) ops)
       \<and> (\<forall>operation\<in>set ops. \<not> op_done operation)
       \<and> (\<forall>operation'. fst y = Inr operation' \<longrightarrow> op_done operation')"
proof -
  let ?P = "\<lambda>(w::World) (n::nat) (operation::VideosOperation) tr (y::(JsError + VideosOperation) \<times> Event list).
    \<exists>ops. snd y = tr @ concat (map (\<lambda>operation. [SetTimeout 10000, GetVideosOperation operation]) ops)
       \<and> (\<forall>operation\<in>set ops. \<not> op_done operation)
       \<and> (\<forall>operation'. fst y = Inr operation' \<longrightarrow> op_done operation')"
  have "?P w n operation tr y"
  proof (rule poll.raw_induct [where P = ?P])
    show "poll w n operation tr = Some y" by fact
  next
    fix poll' :: "World \<Rightarrow> nat \<Rightarrow> VideosOperation \<Rightarrow> Event list \<Rightarrow> ((JsError + VideosOperation) \<times> Event list) option"
    fix w n operation tr y
    assume IH: "\<And>w n operation tr y. poll' w n operation tr = Some y \<Longrightarrow> ?P w n operation tr y"
    assume body: "(if \<not> op_done operation
        then case getVideosOperation w n operation of
             Inl e \<Rightarrow> Some (Inl e, tr @ [SetTimeout 10000, GetVideosOperation operation])
             | Inr operation' \<Rightarrow>
                 poll' w (Suc n) operation' (tr @ [SetTimeout 10000, GetVideosOperation operation])
        else Some (Inr operation, tr)) = Some y"
    show "?P w n operation tr y"
    proof (cases "op_done operation")
      case True
      with body show ?thesis by (intro exI [of _ "[]"]) auto
    next
      case False
      show ?thesis
      proof (cases "getVideosOperation w n operation")
        case (Inl e)
        with False body show ?thesis by (intro exI [of _ "[operation]"]) auto
      next
        case (Inr operation')
        with False body have "poll' w (Suc n) operation' (tr @ [SetTimeout 10000, GetVideosOperation operation]) = Some y"
          by simp
        from IH [OF this] obtain ops where
          "snd y = (tr @ [SetTimeout 10000, GetVideosOperation operation]) @ concat (map (\<lambda>operation. [SetTimeout 10000, GetVideosOperation operation]) ops)"
          "\<forall>operation\<in>set ops. \<not> op_done operation"
          "\<forall>operation'. fst y = Inr operation' \<longrightarrow> op_done operation'" by blast
        with False show ?thesis by (intro exI [of _ "operation # ops"]) auto
      qed
    qed
  qed
  then show ?thesis .
qed

text \<open>
  When the operation is never done and no poll is rejected, the loop does not return.
\<close>

lemma poll_forever:
  assumes never: "\<forall>i. \<not> op_done (ops i) \<and> getVideosOperation w i (ops i) = Inr (ops (Suc i))"
  shows "poll w n (ops n) tr = None"
proof (rule ccontr)
  assume "poll w n (ops n) tr \<noteq> None"
  then obtain y where ret: "poll w n (ops n) tr = Some y" by blast
  let ?P = "\<lambda>(w'::World) (n::nat) (operation::VideosOperation) (tr::Event list)
      (y::(JsError + VideosOperation) \<times> Event list). w' = w \<and> operation = ops n \<longrightarrow> False"
  have "?P w n (ops n) tr y"
  proof (rule poll.raw_induct [where P = ?P])
    show "poll w n (ops n) tr = Some y" by fact
  next
    fix poll' :: "World \<Rightarrow> nat \<Rightarrow> VideosOperation \<Rightarrow> Event list \<Rightarrow> ((JsError + VideosOperation) \<times> Event list) option"
    fix w' n operation tr y
    assume IH: "\<And>w n operation tr y. poll' w n operation tr = Some y \<Longrightarrow> ?P w n operation tr y"
    assume body: "(if \<not> op_done operation
        then case getVideosOperation w' n operation of
             Inl e \<Rightarrow> Some (Inl e, tr @ [SetTimeout 10000, GetVideosOperation operation])
             | Inr operation' \<Rightarrow>
                 poll' w' (Suc n) operation' (tr @ [SetTimeout 10000, GetVideosOperation operation])
        else Some (Inr operation, tr)) = Some y"
    show "?P w' n operation tr y"
    proof
      assume eq: "w' = w \<and> operation = ops n"
      with never body have "poll' w (Suc n) (ops (Suc n)) (tr @ [SetTimeout 10000, GetVideosOperation operation]) = Some y"
        by simp
      from IH [OF this] show False by simp
    qed
  qed
  then show False by simp
qed

lemma animateImage_exact:
  assumes start: "generateVideos w (animateImage_request img p a) = Inr (ops 0)"
      and pending: "\<forall>i<k. \<not> op_done (ops i) \<and> getVideosOperation w i (ops i) = Inr (ops (Suc i))"
      and finished: "op_done (ops k)"
  shows "animateImage w img p a =
     Some (fst (download w (ops k)),
           GenerateVideos (animateImage_request img p a) #
           concat (map (\<lambda>i. [SetTimeout 10000, GetVideosOperation (ops i)]) [0..<k]) @
           snd (download w (ops k)))"
proof -
  have "poll w 0 (ops 0) [GenerateVideos (animateImage_request img p a)] =
      Some (Inr (ops (0 + k)),
            [GenerateVideos (animateImage_request img p a)] @
            concat (map (\<lambda>i. [SetTimeout 10000, GetVideosOperation (ops i)]) [0..<0 + k]))"
    by (rule poll_exact) (use pending finished in simp_all)
  with start show ?thesis
    by (simp add: animateImage_def Let_def split: prod.splits)
qed

lemma animateImage_shape:
  assumes "animateImage w img p a = Some (res, tr)"
  shows "\<exists>ops rest.
      tr = GenerateVideos (animateImage_request img p a) #
           concat (map (\<lambda>operation. [SetTimeout 10000, GetVideosOperation operation]) ops) @ rest
      \<and> (\<forall>operation\<in>set ops. \<not> op_done operation)
      \<and> (rest = [] \<or> (\<exists>operation. op_done operation \<and> rest = snd (download w operation)))"
proof (cases "generateVideos w (animateImage_request img p a)")
  case (Inl e)
  with assms have "tr = [GenerateVideos (animateImage_request img p a)]"
    by (simp add: animateImage_def Let_def)
  then show ?thesis by (intro exI [of _ "[]"]) simp
next
  case (Inr op0)
  with assms obtain y where ret: "poll w 0 op0 [GenerateVideos (animateImage_request img p a)] = Some y"
    by (auto simp: animateImage_def Let_def split: option.splits)
  from poll_shape [OF ret] obtain ops where
    tr: "snd y = [GenerateVideos (animateImage_request img p a)] @
           concat (map (\<lambda>operation. [SetTimeout 10000, GetVideosOperation operation]) ops)"
    and nd: "\<forall>operation\<in>set ops. \<not> op_done operation"
    and fin: "\<forall>operation'. fst y = Inr operation' \<longrightarrow> op_done operation'"
    by blast
  show ?thesis
  proof (cases "fst y")
    case (Inl e)
    with assms Inr ret have "tr = snd y"
      by (cases y) (simp add: animateImage_def Let_def)
    with tr nd show ?thesis by (intro exI [of _ ops] exI [of _ "[]"]) simp
  next
    case (Inr operation')
    with assms \<open>generateVideos w (animateImage_request img p a) = Inr op0\<close> ret
    have "tr = snd y @ snd (download w operation')"
      by (cases y) (auto simp: animateImage_def Let_def split: prod.splits)
    moreover from fin Inr have "op_done operation'" by simp
    ultimately show ?thesis using tr nd
      by (intro exI [of _ ops] exI [of _ "snd (download w operation')"]) auto
  qed
qed

text \<open>
  The \<open>catch\<close> and \<open>finally\<close> blocks change the error and clear the loading flag, whatever
  the key dialog does.
\<close>

lemma on_failure_state:
  "on_failure w fallback err st tr = (rejected, st', tr') \<Longrightarrow>
   st' = st\<lparr>error := Some (or_else (message err) fallback), loading := False\<rparr>"
  by (auto simp: on_failure_def Let_def split: sum.splits if_splits)

lemma runGeneration_outcome:
  assumes "prompt st \<noteq> []"
  shows "case runGeneration w st of (rejected, st', tr) \<Rightarrow>
      loading st' = False
      \<and> (case fst (generateImage w (prompt st) (st_size st) (st_aspectRatio st)) of
           Inr u \<Rightarrow>
             assets st' = \<lparr>asset_id = random_id w, asset_type = ImageAsset, url = u,
                           asset_prompt = prompt st, timestamp = now w\<rparr> # assets st
             \<and> activeTool st' = HISTORY
         | Inl err \<Rightarrow>
             assets st' = assets st \<and> activeTool st' = activeTool st
             \<and> error st' = Some (or_else (message err) ''Generation failed''))"
proof (cases "generateImage w (prompt st) (st_size st) (st_aspectRatio st)")
  case (Pair r tr2)
  show ?thesis
  proof (cases r)
    case (Inl err)
    with Pair assms show ?thesis
      by (auto simp: runGeneration_def Let_def split: prod.splits dest!: on_failure_state)
  next
    case (Inr u)
    with Pair assms show ?thesis
      by (simp add: runGeneration_def Let_def addAsset_def)
  qed
qed

lemma runEditing_outcome:
  assumes "\<not> (falsy (baseImage st) \<or> falsy (colorImage st))"
  shows "case runEditing w st of (rejected, st', tr) \<Rightarrow>
      loading st' = False
      \<and> (case fst (editImage w (value_of (baseImage st)) (value_of (colorImage st)) (prompt st)) of
           Inr u \<Rightarrow>
             assets st' = \<lparr>asset_id = random_id w, asset_type = ImageAsset, url = u,
                           asset_prompt = or_else (prompt st) ''Styled Blend'',
                           timestamp = now w\<rparr> # assets st
             \<and> activeTool st' = HISTORY
         | Inl err \<Rightarrow>
             assets st' = assets st \<and> activeTool st' = activeTool st
             \<and> error st' = Some (or_else (message err) ''Editing failed''))"
proof (cases "editImage w (value_of (baseImage st)) (value_of (colorImage st)) (prompt st)")
  case (Pair r tr2)
  show ?thesis
  proof (cases r)
    case (Inl err)
    with Pair assms show ?thesis
      by (auto simp: runEditing_def Let_def split: prod.splits dest!: on_failure_state)
  next
    case (Inr u)
    with Pair assms show ?thesis
      by (simp add: runEditing_def Let_def addAsset_def)
  qed
qed

lemma runAnimation_outcome:
  assumes "\<not> falsy (st_animateImage st)"
      and "runAnimation w st = Some (rejected, st', tr)"
  shows "loading st' = False
      \<and> (\<exists>r tr2. animateImage w (value_of (st_animateImage st)) (prompt st) (st_aspectRatio st) = Some (r, tr2)
           \<and> (case r of
                 Inr u \<Rightarrow>
                   assets st' = \<lparr>asset_id = random_id w, asset_type = VideoAsset, url = u,
                                 asset_prompt = or_else (prompt st) ''Cinematic Motion'',
                                 timestamp = now w\<rparr> # assets st
                   \<and> activeTool st' = HISTORY
               | Inl err \<Rightarrow>
                   assets st' = assets st \<and> activeTool st' = activeTool st
                   \<and> error st' = Some (or_else (message err) ''Animation failed'')))"
proof (cases "animateImage w (value_of (st_animateImage st)) (prompt st) (st_aspectRatio st)")
  case None
  with assms show ?thesis by (simp add: runAnimation_def Let_def)
next
  case (Some y)
  obtain r tr2 where y: "y = (r, tr2)" by (cases y)
  show ?thesis
  proof (cases r)
    case (Inl err)
    with Some y assms show ?thesis
      by (auto simp: runAnimation_def Let_def split: prod.splits dest!: on_failure_state)
  next
    case (Inr u)
    with Some y assms show ?thesis
      by (auto simp: runAnimation_def Let_def addAsset_def)
  qed
qed

subsection \<open>Model selection and image configuration\<close>

text \<open>
  Claim C1. Every call of \<open>generateImage\<close> sends one generation request, and the model it
  names is \<open>gemini-3-pro-image-preview\<close> exactly when the size is 2K or 4K, and
  \<open>gemini-2.5-flash-image\<close> exactly when the size is 1K.
\<close>

theorem generateImage_model:
  "snd (generateImage w p s a) = [GenerateContent (generateImage_request p s a)]
   \<and> (model (generateImage_request p s a) = ''gemini-3-pro-image-preview'' \<longleftrightarrow> s = Size2K \<or> s = Size4K)
   \<and> (model (generateImage_request p s a) = ''gemini-2.5-flash-image'' \<longleftrightarrow> s = Size1K)"
  by (cases s) (simp_all add: generateImage_trace generateImage_request_def)

text \<open>
  A 4K request names the pro model and carries the size; a 1K request names the flash
  model.
\<close>

theorem generateImage_model_witness:
  "snd (generateImage offline ''a red fox'' Size4K AR_16_9) =
     [GenerateContent
       \<lparr>model = ''gemini-3-pro-image-preview'',
        contents = \<lparr>parts = Some [\<lparr>part_text = Some ''a red fox'', inlineData = None\<rparr>]\<rparr>,
        config = Some \<lparr>imageConfig = Some \<lparr>aspectRatio = AR_16_9, imageSize = Some Size4K\<rparr>\<rparr>\<rparr>]
   \<and> model (generateImage_request ''a red fox'' Size1K AR_16_9) = ''gemini-2.5-flash-image''"
  using generateImage_model [of offline "''a red fox''" Size4K AR_16_9]
    generateImage_model [of offline "''a red fox''" Size1K AR_16_9]
  by (simp add: generateImage_request_def)

text \<open>
  Claim C10. The \<open>imageConfig\<close> of the request of \<open>generateImage\<close> has an
  \<open>imageSize\<close> exactly when the size is 2K or 4K, and then it is the given size; at 1K the
  request goes to \<open>gemini-2.5-flash-image\<close> without an \<open>imageSize\<close>. The outer \<open>Some\<close> is
  the \<open>imageConfig\<close> being there, the inner option is its \<open>imageSize\<close> field.
\<close>

theorem imageSize_only_high_res:
  "snd (generateImage w p s a) = [GenerateContent (generateImage_request p s a)]
   \<and> map_option imageSize (request_imageConfig (generateImage_request p s a)) =
        Some (if s = Size2K \<or> s = Size4K then Some s else None)
   \<and> (s = Size1K \<longrightarrow>
        model (generateImage_request p s a) = ''gemini-2.5-flash-image''
        \<and> map_option imageSize (request_imageConfig (generateImage_request p s a)) = Some None)"
  by (simp add: generateImage_trace generateImage_request_def request_imageConfig_def)

theorem imageSize_only_high_res_witness:
  "snd (generateImage offline ''a red fox'' Size1K AR_1_1) =
     [GenerateContent
       \<lparr>model = ''gemini-2.5-flash-image'',
        contents = \<lparr>parts = Some [\<lparr>part_text = Some ''a red fox'', inlineData = None\<rparr>]\<rparr>,
        config = Some \<lparr>imageConfig = Some \<lparr>aspectRatio = AR_1_1, imageSize = None\<rparr>\<rparr>\<rparr>]
   \<and> map_option imageSize (request_imageConfig (generateImage_request ''a red fox'' Size2K AR_1_1)) =
        Some (Some Size2K)"
  using imageSize_only_high_res [of offline "''a red fox''" Size1K AR_1_1]
    imageSize_only_high_res [of offline "''a red fox''" Size2K AR_1_1]
  by (simp add: generateImage_request_def)

text \<open>
  Claim C5. \<open>generateImage\<close> puts the aspect ratio it is given into the \<open>imageConfig\<close> of
  its request. \<open>animateImage\<close> sends, as the first call of every run that returns, a video
  request whose aspect ratio is 9:16 when it is given 9:16 and 16:9 for every other value.
\<close>

theorem aspect_ratio_forwarded:
  "snd (generateImage w p s a) = [GenerateContent (generateImage_request p s a)]
   \<and> map_option aspectRatio (request_imageConfig (generateImage_request p s a)) = Some a
   \<and> (animateImage w img p a = None
        \<or> (\<exists>res tr. animateImage w img p a =
              Some (res, GenerateVideos (animateImage_request img p a) # tr)))
   \<and> video_aspectRatio (video_config (animateImage_request img p a)) =
        (if a = AR_9_16 then AR_9_16 else AR_16_9)"
proof -
  have "animateImage w img p a = None
        \<or> (\<exists>res tr. animateImage w img p a =
              Some (res, GenerateVideos (animateImage_request img p a) # tr))"
  proof (cases "generateVideos w (animateImage_request img p a)")
    case (Inl e)
    then show ?thesis by (simp add: animateImage_def Let_def)
  next
    case (Inr op0)
    show ?thesis
    proof (cases "poll w 0 op0 [GenerateVideos (animateImage_request img p a)]")
      case None
      with Inr show ?thesis by (simp add: animateImage_def Let_def)
    next
      case (Some y)
      from poll_shape [OF Some] obtain ops where
        "snd y = [GenerateVideos (animateImage_request img p a)] @
           concat (map (\<lambda>operation. [SetTimeout 10000, GetVideosOperation operation]) ops)"
        by blast
      with Inr Some show ?thesis
        by (cases y) (auto simp: animateImage_def Let_def split: sum.splits prod.splits)
    qed
  qed
  then show ?thesis
    by (simp add: generateImage_trace generateImage_request_def request_imageConfig_def
        animateImage_request_def Let_def)
qed

theorem aspect_ratio_forwarded_witness:
  "map_option aspectRatio (request_imageConfig (generateImage_request ''a red fox'' Size1K AR_3_4)) = Some AR_3_4
   \<and> video_aspectRatio (video_config (animateImage_request ''data:image/png;base64,QUJD'' ''waves'' AR_3_4)) = AR_16_9
   \<and> video_aspectRatio (video_config (animateImage_request ''data:image/png;base64,QUJD'' ''waves'' AR_9_16)) = AR_9_16
   \<and> animateImage offline ''data:image/png;base64,QUJD'' ''waves'' AR_3_4 =
       Some (Inl (Error ''offline''),
             [GenerateVideos
               \<lparr>video_model = ''veo-3.1-fast-generate-preview'', video_prompt = ''waves'',
                video_image = \<lparr>imageBytes = Some ''QUJD'', image_mimeType = ''image/png''\<rparr>,
                video_config = \<lparr>numberOfVideos = 1, resolution = ''1080p'',
                                video_aspectRatio = AR_16_9\<rparr>\<rparr>])"
  using aspect_ratio_forwarded [of offline "''a red fox''" Size1K AR_3_4 "''data:image/png;base64,QUJD''"]
    aspect_ratio_forwarded [of offline "''waves''" Size1K AR_3_4 "''data:image/png;base64,QUJD''"]
    aspect_ratio_forwarded [of offline "''waves''" Size1K AR_9_16 "''data:image/png;base64,QUJD''"]
  by (simp add: animateImage_def animateImage_request_def offline_def Let_def or_else_def at_index_def)

subsection \<open>Reading the image out of the response\<close>

text \<open>
  Claim C3, as stated, for every response that holds a part with inline data anywhere:
  it fails on a response whose second candidate holds the image and whose first candidate
  holds only text. The code reads the parts of the first candidate only, so the call throws,
  although the loop would have returned the URL on the parts of the second candidate.
\<close>

theorem inline_image_url_counterexample:
  "fst (generateImage
         (answering \<lparr>candidates = Some [candidate_of [text_part ''Here is your image''],
                                         candidate_of [image_part ''iVBORw0KGgo='']]\<rparr>)
         ''a red fox'' Size1K AR_1_1)
     = Inl (Error ''No image data returned from model'')
   \<and> first_inline ''No image data returned from model'' [image_part ''iVBORw0KGgo='']
     = Inr ''data:image/png;base64,iVBORw0KGgo=''"
  by (simp add: generateImage_def answering_def offline_def response_parts_def at_index_def
      candidate_of_def text_part_def image_part_def template_def)

text \<open>
  Claim C3, amended. When the content of the first candidate has a part with inline data,
  and the first such part carries the payload \<open>payload\<close>, then \<open>generateImage\<close> and
  \<open>editImage\<close>, on receiving this response, return \<open>data:image/png;base64,\<close> followed by
  that payload.
\<close>

theorem inline_image_url:
  assumes "find (\<lambda>pt. inlineData pt \<noteq> None) (response_parts r) = Some pt"
      and "inlineData pt = Some d"
      and "data d = Some payload"
  shows "(generateContent w (generateImage_request p s a) = Inr r \<longrightarrow>
            fst (generateImage w p s a) = Inr (''data:image/png;base64,'' @ payload))
       \<and> (generateContent w (editImage_request base color p) = Inr r \<longrightarrow>
            fst (editImage w base color p) = Inr (''data:image/png;base64,'' @ payload))"
  using first_inline_find [OF assms(1,2)] assms(3)
  by (simp add: generateImage_def editImage_def Let_def template_def)

text \<open>
  With a text part and two image parts in the first candidate, both calls return the URL
  of the first image part.
\<close>

theorem inline_image_url_witness:
  "fst (generateImage
         (answering \<lparr>candidates = Some [candidate_of [text_part ''Here is your image'',
                                                       image_part ''iVBORw0KGgo='',
                                                       image_part ''AAAA'']]\<rparr>)
         ''a red fox'' Size1K AR_1_1)
     = Inr ''data:image/png;base64,iVBORw0KGgo=''
   \<and> fst (editImage
         (answering \<lparr>candidates = Some [candidate_of [text_part ''Here is your image'',
                                                       image_part ''iVBORw0KGgo='',
                                                       image_part ''AAAA'']]\<rparr>)
         ''data:image/png;base64,QUJD'' ''data:image/png;base64,REVG'' ''a red fox'')
     = Inr ''data:image/png;base64,iVBORw0KGgo=''"
  using inline_image_url [where
      r = "\<lparr>candidates = Some [candidate_of [text_part ''Here is your image'',
                                        image_part ''iVBORw0KGgo='', image_part ''AAAA'']]\<rparr>"
      and pt = "image_part ''iVBORw0KGgo=''"
      and d = "\<lparr>data = Some ''iVBORw0KGgo='', mimeType = ''image/png''\<rparr>"
      and payload = "''iVBORw0KGgo=''"
      and w = "answering \<lparr>candidates = Some [candidate_of [text_part ''Here is your image'',
                                        image_part ''iVBORw0KGgo='', image_part ''AAAA'']]\<rparr>"
      and p = "''a red fox''" and s = Size1K and a = AR_1_1
      and base = "''data:image/png;base64,QUJD''"
      and color = "''data:image/png;base64,REVG''"]
  by (simp add: answering_def offline_def response_parts_def at_index_def
      candidate_of_def text_part_def image_part_def)

text \<open>
  Claim C4. Given the response to its request, \<open>generateImage\<close> throws exactly when no
  part of the first candidate's content has inline data, and the error then has the message
  \<open>No image data returned from model\<close>; otherwise the result is \<open>Inr\<close>, a returned URL. The
  same holds of \<open>editImage\<close> with the message \<open>No edited image data returned\<close>.
\<close>

theorem image_error_iff_no_inline:
  "(generateContent w (generateImage_request p s a) = Inr r \<longrightarrow>
      (isl (fst (generateImage w p s a)) \<longleftrightarrow> (\<forall>pt\<in>set (response_parts r). inlineData pt = None))
      \<and> (isl (fst (generateImage w p s a)) \<longrightarrow>
           fst (generateImage w p s a) = Inl (Error ''No image data returned from model'')))
   \<and> (generateContent w (editImage_request base color q) = Inr r' \<longrightarrow>
      (isl (fst (editImage w base color q)) \<longleftrightarrow> (\<forall>pt\<in>set (response_parts r'). inlineData pt = None))
      \<and> (isl (fst (editImage w base color q)) \<longrightarrow>
           fst (editImage w base color q) = Inl (Error ''No edited image data returned'')))"
  by (simp add: generateImage_def editImage_def Let_def first_inline_isl first_inline_none)

theorem image_error_iff_no_inline_witness:
  "fst (generateImage (answering \<lparr>candidates = Some [candidate_of [text_part ''I cannot draw that'']]\<rparr>)
         ''a red fox'' Size2K AR_4_3)
     = Inl (Error ''No image data returned from model'')
   \<and> fst (editImage (answering \<lparr>candidates = Some [candidate_of [text_part ''I cannot draw that'']]\<rparr>)
         ''data:image/png;base64,QUJD'' ''data:image/png;base64,REVG'' ''warmer'')
     = Inl (Error ''No edited image data returned'')
   \<and> \<not> isl (fst (generateImage (answering \<lparr>candidates = Some [candidate_of [image_part ''AAAA'']]\<rparr>)
         ''a red fox'' Size2K AR_4_3))"
  using image_error_iff_no_inline [where
      w = "answering \<lparr>candidates = Some [candidate_of [text_part ''I cannot draw that'']]\<rparr>"
      and r = "\<lparr>candidates = Some [candidate_of [text_part ''I cannot draw that'']]\<rparr>"
      and r' = "\<lparr>candidates = Some [candidate_of [text_part ''I cannot draw that'']]\<rparr>"
      and p = "''a red fox''" and s = Size2K and a = AR_4_3
      and base = "''data:image/png;base64,QUJD''"
      and color = "''data:image/png;base64,REVG''" and q = "''warmer''"]
    image_error_iff_no_inline [where
      w = "answering \<lparr>candidates = Some [candidate_of [image_part ''AAAA'']]\<rparr>"
      and r = "\<lparr>candidates = Some [candidate_of [image_part ''AAAA'']]\<rparr>"
      and r' = "\<lparr>candidates = Some [candidate_of [image_part ''AAAA'']]\<rparr>"
      and p = "''a red fox''" and s = Size2K and a = AR_4_3
      and base = "''data:image/png;base64,QUJD''"
      and color = "''data:image/png;base64,REVG''" and q = "''warmer''"]
  by (simp add: answering_def offline_def response_parts_def at_index_def
      candidate_of_def text_part_def image_part_def)

subsection \<open>The request of \<open>editImage\<close>\<close>

text \<open>
  Claim C7. For a base image and a style image given as data URLs (a header, a comma and
  a base64 payload) and a prompt, \<open>editImage\<close> sends a single request to
  \<open>gemini-2.5-flash-image\<close> with exactly three parts, in this order: the payload of the base
  image as inline data, the payload of the style image as inline data, and the instruction
  that makes the first image the subject, takes colour palette, style and lighting from the
  second, and ends with the prompt.
\<close>

theorem editImage_request_parts:
  assumes "CHR '','' \<notin> set h1" and "CHR '','' \<notin> set d1"
      and "CHR '','' \<notin> set h2" and "CHR '','' \<notin> set d2"
  shows "snd (editImage w (h1 @ '','' @ d1) (h2 @ '','' @ d2) p) =
     [GenerateContent
       \<lparr>model = ''gemini-2.5-flash-image'',
        contents = \<lparr>parts = Some
          [\<lparr>part_text = None, inlineData = Some \<lparr>data = Some d1, mimeType = ''image/png''\<rparr>\<rparr>,
           \<lparr>part_text = None, inlineData = Some \<lparr>data = Some d2, mimeType = ''image/png''\<rparr>\<rparr>,
           \<lparr>part_text = Some (''Combine these two images. Use the first image as the subject and the second image's color palette, style, and lighting. Details: '' @ p),
            inlineData = None\<rparr>]\<rparr>,
        config = None\<rparr>]"
  using data_url_payload [OF assms(1,2)] data_url_payload [OF assms(3,4)]
  by (simp add: editImage_trace editImage_request_def)

theorem editImage_request_parts_witness:
  "snd (editImage offline ''data:image/png;base64,QUJD'' ''data:image/jpeg;base64,REVG'' ''warmer'') =
     [GenerateContent
       \<lparr>model = ''gemini-2.5-flash-image'',
        contents = \<lparr>parts = Some
          [\<lparr>part_text = None, inlineData = Some \<lparr>data = Some ''QUJD'', mimeType = ''image/png''\<rparr>\<rparr>,
           \<lparr>part_text = None, inlineData = Some \<lparr>data = Some ''REVG'', mimeType = ''image/png''\<rparr>\<rparr>,
           \<lparr>part_text = Some ''Combine these two images. Use the first image as the subject and the second image's color palette, style, and lighting. Details: warmer'',
            inlineData = None\<rparr>]\<rparr>,
        config = None\<rparr>]"
  using editImage_request_parts [of "''data:image/png;base64''" "''QUJD''" "''data:image/jpeg;base64''" "''REVG''" offline "''warmer''"]
  by simp

subsection \<open>Polling the video operation\<close>

text \<open>
  Claim C2. Let \<open>ops 0\<close> be the operation that \<open>generateVideos\<close> returns and \<open>ops (i + 1)\<close>
  the answer to the poll of \<open>ops i\<close>. First: when \<open>ops k\<close> is the first of them that is done,
  \<open>animateImage\<close> returns after exactly \<open>k\<close> polls, one for each operation that was not
  done, each right after a \<open>setTimeout\<close> of 10000 ms, and what reads the URI and fetches the
  video (\<open>download\<close>) comes after them all, on \<open>ops k\<close>. Second: when none of them is ever done
  and no poll is rejected, \<open>animateImage\<close> never returns. Third, for every run that returns, also one that a rejected
  call ends: its calls are the video request, then waits of 10000 ms each followed by a poll of
  an operation that is not done, and then either nothing or the calls of \<open>download\<close> on an
  operation that is done.
\<close>

theorem animateImage_polls_until_done:
  "(\<forall>ops k.
      generateVideos w (animateImage_request img p a) = Inr (ops 0)
      \<and> (\<forall>i<k. \<not> op_done (ops i) \<and> getVideosOperation w i (ops i) = Inr (ops (Suc i)))
      \<and> op_done (ops k)
      \<longrightarrow> animateImage w img p a =
            Some (fst (download w (ops k)),
                  GenerateVideos (animateImage_request img p a) #
                  concat (map (\<lambda>i. [SetTimeout 10000, GetVideosOperation (ops i)]) [0..<k]) @
                  snd (download w (ops k))))
   \<and> (\<forall>ops.
      generateVideos w (animateImage_request img p a) = Inr (ops 0)
      \<and> (\<forall>i. \<not> op_done (ops i) \<and> getVideosOperation w i (ops i) = Inr (ops (Suc i)))
      \<longrightarrow> animateImage w img p a = None)
   \<and> (\<forall>res tr.
      animateImage w img p a = Some (res, tr)
      \<longrightarrow> (\<exists>ops rest.
            tr = GenerateVideos (animateImage_request img p a) #
                 concat (map (\<lambda>operation. [SetTimeout 10000, GetVideosOperation operation]) ops) @ rest
            \<and> (\<forall>operation\<in>set ops. \<not> op_done operation)
            \<and> (rest = [] \<or> (\<exists>operation. op_done operation \<and> rest = snd (download w operation)))))"
proof (intro conjI allI impI)
  fix ops :: "nat \<Rightarrow> VideosOperation" and k
  assume "generateVideos w (animateImage_request img p a) = Inr (ops 0)
      \<and> (\<forall>i<k. \<not> op_done (ops i) \<and> getVideosOperation w i (ops i) = Inr (ops (Suc i)))
      \<and> op_done (ops k)"
  then show "animateImage w img p a =
            Some (fst (download w (ops k)),
                  GenerateVideos (animateImage_request img p a) #
                  concat (map (\<lambda>i. [SetTimeout 10000, GetVideosOperation (ops i)]) [0..<k]) @
                  snd (download w (ops k)))"
    by (intro animateImage_exact) simp_all
next
  fix ops :: "nat \<Rightarrow> VideosOperation"
  assume h: "generateVideos w (animateImage_request img p a) = Inr (ops 0)
      \<and> (\<forall>i. \<not> op_done (ops i) \<and> getVideosOperation w i (ops i) = Inr (ops (Suc i)))"
  then have "poll w 0 (ops 0) [GenerateVideos (animateImage_request img p a)] = None"
    by (intro poll_forever) simp
  with h show "animateImage w img p a = None"
    by (simp add: animateImage_def Let_def)
next
  fix res tr
  assume "animateImage w img p a = Some (res, tr)"
  then show "\<exists>ops rest.
            tr = GenerateVideos (animateImage_request img p a) #
                 concat (map (\<lambda>operation. [SetTimeout 10000, GetVideosOperation operation]) ops) @ rest
            \<and> (\<forall>operation\<in>set ops. \<not> op_done operation)
            \<and> (rest = [] \<or> (\<exists>operation. op_done operation \<and> rest = snd (download w operation)))"
    by (rule animateImage_shape)
qed

text \<open>
  An operation that is pending when created and after the first poll, and done at the
  second: two waits and two polls, then the download.
\<close>

theorem animateImage_polls_until_done_witness:
  "generateVideos (polling finished_operation)
       (animateImage_request ''data:image/png;base64,QUJD'' ''waves'' AR_9_16) = Inr pending_operation
   \<and> \<not> op_done pending_operation
   \<and> getVideosOperation (polling finished_operation) 0 pending_operation = Inr pending_operation
   \<and> getVideosOperation (polling finished_operation) 1 pending_operation = Inr finished_operation
   \<and> op_done finished_operation
   \<and> animateImage (polling finished_operation) ''data:image/png;base64,QUJD'' ''waves'' AR_9_16 =
       Some (Inr ''blob:VIDEO'',
             [GenerateVideos (animateImage_request ''data:image/png;base64,QUJD'' ''waves'' AR_9_16),
              SetTimeout 10000, GetVideosOperation pending_operation,
              SetTimeout 10000, GetVideosOperation pending_operation,
              ReadUri finished_operation,
              Fetch ''https://videos.test/v1?alt=media&key=KEY'',
              ReadBlob,
              CreateObjectURL ''VIDEO''])"
proof -
  have ev: "[0..<2] = [0, Suc 0]" by (simp add: upt_conv_Cons)
  have lt: "\<And>i::nat. i < 2 \<Longrightarrow> i = 0 \<or> i = 1" by auto
  have pre: "\<forall>i<2. \<not> op_done (polled finished_operation i) \<and>
      getVideosOperation (polling finished_operation) i (polled finished_operation i) =
        Inr (polled finished_operation (Suc i))"
    by (auto dest!: lt simp: polled_def polling_def offline_def pending_operation_def)
  from animateImage_polls_until_done [of "polling finished_operation"
      "''data:image/png;base64,QUJD''" "''waves''" AR_9_16]
  have "generateVideos (polling finished_operation)
          (animateImage_request ''data:image/png;base64,QUJD'' ''waves'' AR_9_16) =
          Inr (polled finished_operation 0)
      \<and> (\<forall>i<2. \<not> op_done (polled finished_operation i) \<and>
            getVideosOperation (polling finished_operation) i (polled finished_operation i) =
              Inr (polled finished_operation (Suc i)))
      \<and> op_done (polled finished_operation 2)
      \<longrightarrow> animateImage (polling finished_operation) ''data:image/png;base64,QUJD'' ''waves'' AR_9_16 =
            Some (fst (download (polling finished_operation) (polled finished_operation 2)),
                  GenerateVideos (animateImage_request ''data:image/png;base64,QUJD'' ''waves'' AR_9_16) #
                  concat (map (\<lambda>i. [SetTimeout 10000, GetVideosOperation (polled finished_operation i)]) [0..<2]) @
                  snd (download (polling finished_operation) (polled finished_operation 2)))"
    by blast
  with pre have "animateImage (polling finished_operation) ''data:image/png;base64,QUJD'' ''waves'' AR_9_16 =
            Some (fst (download (polling finished_operation) (polled finished_operation 2)),
                  GenerateVideos (animateImage_request ''data:image/png;base64,QUJD'' ''waves'' AR_9_16) #
                  concat (map (\<lambda>i. [SetTimeout 10000, GetVideosOperation (polled finished_operation i)]) [0..<2]) @
                  snd (download (polling finished_operation) (polled finished_operation 2)))"
    by (simp add: polled_def polling_def offline_def finished_operation_def)
  then show ?thesis
    by (simp add: ev polled_def polling_def offline_def finished_operation_def pending_operation_def
        download_def downloadLink_def at_index_def falsy_def template_def Let_def)
qed

text \<open>
  Claim C6. When the poll loop has ended with an operation, that operation is done, and:
  \<open>animateImage\<close> stops right after reading the link, with the error
  \<open>Video generation failed\<close>, exactly when the first generated video of the operation's response
  has no URI (none, or an empty one). When it has the URI \<open>u\<close>, the next call fetches \<open>u\<close> followed
  by \<open>&key=\<close> and the API key as the template literal prints it, and when that download
  succeeds with the bytes \<open>b\<close>, the result is the object URL made for \<open>b\<close>.
\<close>

theorem animateImage_after_done:
  assumes start: "generateVideos w (animateImage_request img p a) = Inr op0"
      and ended: "poll w 0 op0 [GenerateVideos (animateImage_request img p a)] = Some (Inr operation, tr)"
  shows "op_done operation
     \<and> (animateImage w img p a =
          Some (Inl (Error ''Video generation failed''), tr @ [ReadUri operation])
        \<longleftrightarrow> falsy (downloadLink operation))
     \<and> (\<forall>u. downloadLink operation = Some u \<and> u \<noteq> [] \<longrightarrow>
          (\<exists>res rest. animateImage w img p a =
             Some (res, tr @ [ReadUri operation, Fetch (u @ ''&key='' @ template (API_KEY w))] @ rest))
          \<and> (\<forall>videoResponse b.
                fetch w (u @ ''&key='' @ template (API_KEY w)) = Inr videoResponse
                \<and> blob videoResponse = Inr b \<longrightarrow>
                animateImage w img p a =
                  Some (Inr (createObjectURL w b),
                        tr @ [ReadUri operation, Fetch (u @ ''&key='' @ template (API_KEY w)),
                              ReadBlob, CreateObjectURL b])))"
proof -
  have run: "animateImage w img p a =
      Some (fst (download w operation), tr @ snd (download w operation))"
    using start ended by (simp add: animateImage_def Let_def split: prod.splits)
  have fin: "op_done operation"
    using poll_shape [OF ended] by auto
  have failed: "animateImage w img p a =
          Some (Inl (Error ''Video generation failed''), tr @ [ReadUri operation])
        \<longleftrightarrow> falsy (downloadLink operation)"
    unfolding run by (auto simp: download_def Let_def split: sum.splits)
  have fetched: "(\<exists>res rest. animateImage w img p a =
             Some (res, tr @ [ReadUri operation, Fetch (u @ ''&key='' @ template (API_KEY w))] @ rest))
          \<and> (\<forall>videoResponse b.
                fetch w (u @ ''&key='' @ template (API_KEY w)) = Inr videoResponse
                \<and> blob videoResponse = Inr b \<longrightarrow>
                animateImage w img p a =
                  Some (Inr (createObjectURL w b),
                        tr @ [ReadUri operation, Fetch (u @ ''&key='' @ template (API_KEY w)),
                              ReadBlob, CreateObjectURL b]))"
    if "downloadLink operation = Some u \<and> u \<noteq> []" for u
    unfolding run using that
    by (auto simp: download_def Let_def falsy_def template_def split: sum.splits)
  from fin failed fetched show ?thesis by blast
qed

text \<open>
  An operation that ends without a response fails; one that ends with a video URI is
  downloaded.
\<close>

theorem animateImage_after_done_witness:
  "animateImage (polling failed_operation) ''data:image/png;base64,QUJD'' ''waves'' AR_9_16 =
     Some (Inl (Error ''Video generation failed''),
           [GenerateVideos (animateImage_request ''data:image/png;base64,QUJD'' ''waves'' AR_9_16),
            SetTimeout 10000, GetVideosOperation pending_operation,
            SetTimeout 10000, GetVideosOperation pending_operation,
            ReadUri failed_operation])
   \<and> downloadLink failed_operation = None
   \<and> downloadLink finished_operation = Some ''https://videos.test/v1?alt=media''
   \<and> animateImage (polling finished_operation) ''data:image/png;base64,QUJD'' ''waves'' AR_9_16 =
     Some (Inr ''blob:VIDEO'',
           [GenerateVideos (animateImage_request ''data:image/png;base64,QUJD'' ''waves'' AR_9_16),
            SetTimeout 10000, GetVideosOperation pending_operation,
            SetTimeout 10000, GetVideosOperation pending_operation,
            ReadUri finished_operation,
            Fetch ''https://videos.test/v1?alt=media&key=KEY'',
            ReadBlob,
            CreateObjectURL ''VIDEO''])"
proof -
  let ?req = "animateImage_request ''data:image/png;base64,QUJD'' ''waves'' AR_9_16"
  have ev: "[0..<2] = [0, Suc 0]" by (simp add: upt_conv_Cons)
  have lt: "\<And>i::nat. i < 2 \<Longrightarrow> i = 0 \<or> i = 1" by auto
  have loop: "poll (polling final) 0 pending_operation [GenerateVideos ?req] =
      Some (Inr final,
            [GenerateVideos ?req,
             SetTimeout 10000, GetVideosOperation pending_operation,
             SetTimeout 10000, GetVideosOperation pending_operation])"
    if "op_done final" for final
  proof -
    have "poll (polling final) 0 (polled final 0) [GenerateVideos ?req] =
        Some (Inr (polled final (0 + 2)),
              [GenerateVideos ?req] @
              concat (map (\<lambda>i. [SetTimeout 10000, GetVideosOperation (polled final i)]) [0..<0 + 2]))"
      by (rule poll_exact)
        (use that in \<open>auto dest!: lt simp: polled_def polling_def offline_def pending_operation_def\<close>)
    then show ?thesis by (simp add: ev polled_def)
  qed
  have start: "generateVideos (polling final) ?req = Inr pending_operation" for final
    by (simp add: polling_def offline_def)
  have a: "op_done failed_operation" and b: "op_done finished_operation"
    by (simp_all add: failed_operation_def finished_operation_def)
  have links: "downloadLink failed_operation = None"
      "downloadLink finished_operation = Some ''https://videos.test/v1?alt=media''"
    by (simp_all add: downloadLink_def failed_operation_def finished_operation_def at_index_def)
  show ?thesis
    using animateImage_after_done [OF start loop [OF a]]
      animateImage_after_done [OF start loop [OF b]] links
    by (simp add: falsy_def template_def polling_def offline_def)
qed

subsection \<open>The run handlers\<close>

text \<open>
  Claim C8. \<open>runGeneration\<close> with an empty prompt, \<open>runEditing\<close> with one of the two images
  missing (\<open>null\<close> or empty), and \<open>runAnimation\<close> with no image each return at once: the
  error is set to the handler's message, nothing else in the state changes, so the loading
  flag and the assets are as before, and no call has been made.
\<close>

theorem run_guards:
  "(prompt st = [] \<longrightarrow>
      (case runGeneration w st of (rejected, st', tr) \<Rightarrow>
         st' = st\<lparr>error := Some ''Please enter a prompt''\<rparr> \<and> tr = [] \<and> rejected = None
         \<and> loading st' = loading st \<and> assets st' = assets st))
   \<and> (falsy (baseImage st) \<or> falsy (colorImage st) \<longrightarrow>
      (case runEditing w st of (rejected, st', tr) \<Rightarrow>
         st' = st\<lparr>error := Some ''Please upload both images''\<rparr> \<and> tr = [] \<and> rejected = None
         \<and> loading st' = loading st \<and> assets st' = assets st))
   \<and> (falsy (st_animateImage st) \<longrightarrow>
      (case runAnimation w st of
         None \<Rightarrow> False
       | Some (rejected, st', tr) \<Rightarrow>
         st' = st\<lparr>error := Some ''Please upload an image to animate''\<rparr> \<and> tr = [] \<and> rejected = None
         \<and> loading st' = loading st \<and> assets st' = assets st))"
  by (simp add: runGeneration_def runEditing_def runAnimation_def)

theorem run_guards_witness:
  "runGeneration offline initial_state =
     (None, initial_state\<lparr>error := Some ''Please enter a prompt''\<rparr>, [])
   \<and> runEditing offline (initial_state\<lparr>baseImage := Some ''data:image/png;base64,QUJD''\<rparr>) =
     (None, initial_state\<lparr>baseImage := Some ''data:image/png;base64,QUJD'',
                          error := Some ''Please upload both images''\<rparr>, [])
   \<and> runAnimation offline initial_state =
     Some (None, initial_state\<lparr>error := Some ''Please upload an image to animate''\<rparr>, [])"
  using run_guards [of initial_state offline]
    run_guards [of "initial_state\<lparr>baseImage := Some ''data:image/png;base64,QUJD''\<rparr>" offline]
  by (auto simp: initial_state_def falsy_def split: prod.splits option.splits)

text \<open>
  Claim C9, as stated, has the new asset carry the prompt and the error state hold the
  thrown message. \<open>runEditing\<close> with an empty prompt stores an asset with the prompt
  \<open>Styled Blend\<close>, and \<open>runGeneration\<close> after an error with an empty message sets the error
  state to \<open>Generation failed\<close>.
\<close>

theorem run_outcomes_counterexample:
  "assets (fst (snd (runEditing
      (answering \<lparr>candidates = Some [candidate_of [image_part ''iVBORw0KGgo='']]\<rparr>)
      (initial_state\<lparr>baseImage := Some ''data:image/png;base64,QUJD'',
                     colorImage := Some ''data:image/png;base64,REVG''\<rparr>)))) =
     [\<lparr>asset_id = ''k3x9f'', asset_type = ImageAsset, url = ''data:image/png;base64,iVBORw0KGgo='',
       asset_prompt = ''Styled Blend'', timestamp = 1700000000000\<rparr>]
   \<and> prompt initial_state = []
   \<and> fst (generateImage (rejecting []) ''a red fox'' Size1K AR_1_1) = Inl (Error [])
   \<and> error (fst (snd (runGeneration (rejecting []) (initial_state\<lparr>prompt := ''a red fox''\<rparr>)))) =
       Some ''Generation failed''"
  by (simp add: runEditing_def runGeneration_def on_failure_def editImage_def generateImage_def
      answering_def rejecting_def offline_def initial_state_def addAsset_def checkApiKey_def
      response_parts_def at_index_def candidate_of_def image_part_def template_def value_of_def
      falsy_def or_else_def Let_def)

text \<open>
  Claim C9, amended. Every run of a handler that passes its guard ends with the loading
  flag false. When the service call returns a URL, exactly one asset is put in front of the
  assets, with that URL, the type \<open>image\<close> (\<open>video\<close> for \<open>runAnimation\<close>) and the prompt, where
  an empty prompt is replaced by \<open>Styled Blend\<close> in \<open>runEditing\<close> and by \<open>Cinematic Motion\<close> in
  \<open>runAnimation\<close>, and the active tool is \<open>HISTORY\<close>. When the service call throws, the assets
  and the active tool are as before and the error state holds the thrown message, where an
  empty message is replaced by \<open>Generation failed\<close>, \<open>Editing failed\<close> or \<open>Animation failed\<close>.
\<close>

theorem run_outcomes:
  "(prompt st \<noteq> [] \<longrightarrow>
      (case runGeneration w st of (rejected, st', tr) \<Rightarrow>
         loading st' = False
         \<and> (case fst (generateImage w (prompt st) (st_size st) (st_aspectRatio st)) of
              Inr u \<Rightarrow>
                assets st' = \<lparr>asset_id = random_id w, asset_type = ImageAsset, url = u,
                              asset_prompt = prompt st, timestamp = now w\<rparr> # assets st
                \<and> activeTool st' = HISTORY
            | Inl err \<Rightarrow>
                assets st' = assets st \<and> activeTool st' = activeTool st
                \<and> error st' = Some (or_else (message err) ''Generation failed''))))
   \<and> (\<not> (falsy (baseImage st) \<or> falsy (colorImage st)) \<longrightarrow>
      (case runEditing w st of (rejected, st', tr) \<Rightarrow>
         loading st' = False
         \<and> (case fst (editImage w (value_of (baseImage st)) (value_of (colorImage st)) (prompt st)) of
              Inr u \<Rightarrow>
                assets st' = \<lparr>asset_id = random_id w, asset_type = ImageAsset, url = u,
                              asset_prompt = or_else (prompt st) ''Styled Blend'',
                              timestamp = now w\<rparr> # assets st
                \<and> activeTool st' = HISTORY
            | Inl err \<Rightarrow>
                assets st' = assets st \<and> activeTool st' = activeTool st
                \<and> error st' = Some (or_else (message err) ''Editing failed''))))
   \<and> (\<not> falsy (st_animateImage st) \<longrightarrow>
      (\<forall>rejected st' tr. runAnimation w st = Some (rejected, st', tr) \<longrightarrow>
         loading st' = False
         \<and> (\<exists>r tr2. animateImage w (value_of (st_animateImage st)) (prompt st) (st_aspectRatio st) = Some (r, tr2)
              \<and> (case r of
                    Inr u \<Rightarrow>
                      assets st' = \<lparr>asset_id = random_id w, asset_type = VideoAsset, url = u,
                                    asset_prompt = or_else (prompt st) ''Cinematic Motion'',
                                    timestamp = now w\<rparr> # assets st
                      \<and> activeTool st' = HISTORY
                  | Inl err \<Rightarrow>
                      assets st' = assets st \<and> activeTool st' = activeTool st
                      \<and> error st' = Some (or_else (message err) ''Animation failed'')))))"
  using runGeneration_outcome [of st w] runEditing_outcome [of st w] runAnimation_outcome [of st w]
  by blast

text \<open>
  A generation that succeeds, an edit that is rejected, and an animation with an empty
  prompt that succeeds after two polls.
\<close>

theorem run_outcomes_witness:
  "prompt (initial_state\<lparr>prompt := ''a red fox''\<rparr>) \<noteq> []
   \<and> fst (generateImage (answering \<lparr>candidates = Some [candidate_of [image_part ''iVBORw0KGgo='']]\<rparr>)
           ''a red fox'' Size1K AR_1_1) = Inr ''data:image/png;base64,iVBORw0KGgo=''
   \<and> runGeneration (answering \<lparr>candidates = Some [candidate_of [image_part ''iVBORw0KGgo='']]\<rparr>)
        (initial_state\<lparr>prompt := ''a red fox''\<rparr>) =
       (None,
        \<lparr>activeTool = HISTORY, loading = False,
         loadingMessage = ''Synthesizing your imagination...'', error = None,
         assets = [\<lparr>asset_id = ''k3x9f'', asset_type = ImageAsset,
                    url = ''data:image/png;base64,iVBORw0KGgo='',
                    asset_prompt = ''a red fox'', timestamp = 1700000000000\<rparr>],
         prompt = ''a red fox'', st_size = Size1K, st_aspectRatio = AR_1_1,
         baseImage = None, colorImage = None, st_animateImage = None\<rparr>,
        [HasSelectedApiKey, GenerateContent (generateImage_request ''a red fox'' Size1K AR_1_1)])
   \<and> runEditing (rejecting ''quota exceeded'')
        (initial_state\<lparr>baseImage := Some ''data:image/png;base64,QUJD'',
                       colorImage := Some ''data:image/png;base64,REVG''\<rparr>) =
       (None,
        \<lparr>activeTool = GENERATE, loading = False,
         loadingMessage = ''Blending visuals and styles...'', error = Some ''quota exceeded'',
         assets = [],
         prompt = [], st_size = Size1K, st_aspectRatio = AR_1_1,
         baseImage = Some ''data:image/png;base64,QUJD'',
         colorImage = Some ''data:image/png;base64,REVG'', st_animateImage = None\<rparr>,
        [HasSelectedApiKey,
         GenerateContent (editImage_request ''data:image/png;base64,QUJD'' ''data:image/png;base64,REVG'' [])])
   \<and> runAnimation (polling finished_operation)
        (initial_state\<lparr>st_animateImage := Some ''data:image/png;base64,QUJD''\<rparr>) =
       Some (None,
        \<lparr>activeTool = HISTORY, loading = False,
         loadingMessage = ''Breathing life into your pixels (this may take a minute)...'',
         error = None,
         assets = [\<lparr>asset_id = ''k3x9f'', asset_type = VideoAsset, url = ''blob:VIDEO'',
                    asset_prompt = ''Cinematic Motion'', timestamp = 1700000000000\<rparr>],
         prompt = [], st_size = Size1K, st_aspectRatio = AR_1_1,
         baseImage = None, colorImage = None,
         st_animateImage = Some ''data:image/png;base64,QUJD''\<rparr>,
        [HasSelectedApiKey,
         GenerateVideos (animateImage_request ''data:image/png;base64,QUJD'' [] AR_1_1),
         SetTimeout 10000, GetVideosOperation pending_operation,
         SetTimeout 10000, GetVideosOperation pending_operation,
         ReadUri finished_operation,
         Fetch ''https://videos.test/v1?alt=media&key=KEY'',
         ReadBlob,
         CreateObjectURL ''VIDEO''])"
proof -
  let ?req = "animateImage_request ''data:image/png;base64,QUJD'' [] AR_1_1"
  have ev: "[0..<2] = [0, Suc 0]" by (simp add: upt_conv_Cons)
  have lt: "\<And>i::nat. i < 2 \<Longrightarrow> i = 0 \<or> i = 1" by auto
  have "animateImage (polling finished_operation) ''data:image/png;base64,QUJD'' [] AR_1_1 =
      Some (fst (download (polling finished_operation) (polled finished_operation 2)),
            GenerateVideos ?req #
            concat (map (\<lambda>i. [SetTimeout 10000, GetVideosOperation (polled finished_operation i)]) [0..<2]) @
            snd (download (polling finished_operation) (polled finished_operation 2)))"
    by (rule animateImage_exact)
      (auto dest!: lt simp: polled_def polling_def offline_def pending_operation_def
        finished_operation_def)
  then have video: "animateImage (polling finished_operation) ''data:image/png;base64,QUJD'' [] AR_1_1 =
      Some (Inr ''blob:VIDEO'',
        [GenerateVideos ?req,
         SetTimeout 10000, GetVideosOperation pending_operation,
         SetTimeout 10000, GetVideosOperation pending_operation,
         ReadUri finished_operation,
         Fetch ''https://videos.test/v1?alt=media&key=KEY'',
         ReadBlob,
         CreateObjectURL ''VIDEO''])"
    by (simp add: ev polled_def polling_def offline_def finished_operation_def pending_operation_def
        download_def downloadLink_def at_index_def falsy_def template_def Let_def)
  have anim: "runAnimation (polling finished_operation)
        (initial_state\<lparr>st_animateImage := Some ''data:image/png;base64,QUJD''\<rparr>) =
       Some (None,
        \<lparr>activeTool = HISTORY, loading = False,
         loadingMessage = ''Breathing life into your pixels (this may take a minute)...'',
         error = None,
         assets = [\<lparr>asset_id = ''k3x9f'', asset_type = VideoAsset, url = ''blob:VIDEO'',
                    asset_prompt = ''Cinematic Motion'', timestamp = 1700000000000\<rparr>],
         prompt = [], st_size = Size1K, st_aspectRatio = AR_1_1,
         baseImage = None, colorImage = None,
         st_animateImage = Some ''data:image/png;base64,QUJD''\<rparr>,
        [HasSelectedApiKey,
         GenerateVideos ?req,
         SetTimeout 10000, GetVideosOperation pending_operation,
         SetTimeout 10000, GetVideosOperation pending_operation,
         ReadUri finished_operation,
         Fetch ''https://videos.test/v1?alt=media&key=KEY'',
         ReadBlob,
         CreateObjectURL ''VIDEO''])"
    using video
    by (simp add: runAnimation_def initial_state_def falsy_def value_of_def Let_def addAsset_def
        or_else_def checkApiKey_def polling_def offline_def)
  show ?thesis
    using run_outcomes [of "initial_state\<lparr>prompt := ''a red fox''\<rparr>"
        "answering \<lparr>candidates = Some [candidate_of [image_part ''iVBORw0KGgo='']]\<rparr>"]
      run_outcomes [of "initial_state\<lparr>baseImage := Some ''data:image/png;base64,QUJD'',
                       colorImage := Some ''data:image/png;base64,REVG''\<rparr>"
        "rejecting ''quota exceeded''"]
      run_outcomes [of "initial_state\<lparr>st_animateImage := Some ''data:image/png;base64,QUJD''\<rparr>"
        "polling finished_operation"]
      anim
    by (simp add: runEditing_def runGeneration_def on_failure_def editImage_def generateImage_def
      answering_def rejecting_def offline_def initial_state_def addAsset_def checkApiKey_def
      response_parts_def at_index_def candidate_of_def image_part_def template_def value_of_def
      falsy_def or_else_def Let_def)
qed

end
